theory Spec2Isabelle
  imports Main
begin

section \<open>Data model\<close>

text \<open>
  The admin console of the ordering application derives a per-table status from the
  current orders, manages the life cycle of orders and sorts open order items for the bar.
\<close>

subsection \<open>JavaScript numbers\<close>

text \<open>
  Amounts are JavaScript numbers, that is IEEE 754 doubles, in euros with a fractional
  part. \<open>Dbl m e\<close> is the number \<open>m * 2 ^ e\<close>, written with \<open>m\<close> odd, or with \<open>m = 0\<close> and
  \<open>e = 0\<close>; a double has \<open>\<bar>m\<bar> < 2 ^ 53\<close> and \<open>- 1074 \<le> e\<close> and \<open>e \<le> 971\<close>. So 12.50 is
  \<open>Dbl 25 (- 1)\<close>, and 0.1 is the double next to it, \<open>Dbl 3602879701896397 (- 55)\<close>.
  Addition is the exact sum rounded to 53 bits, ties to even, and \<^verbatim>\<open>Infinity\<close> beyond the
  largest double; it is not associative.
\<close>

datatype js_number = NaN | PosInfinity | NegInfinity | NegZero | Dbl int int

function bitLength :: "int \<Rightarrow> int" where
  "bitLength n = (if n \<le> 0 then 0 else 1 + bitLength (n div 2))"
  by pat_completeness auto
termination
  by (relation "measure nat") auto

declare bitLength.simps [simp del]

function normalize :: "int \<Rightarrow> int \<Rightarrow> js_number" where
  "normalize m e =
     (if m = 0 then Dbl 0 0
      else if even m then normalize (m div 2) (e + 1)
      else Dbl m e)"
  by pat_completeness auto
termination
  by (relation "measure (\<lambda>(m, e). nat \<bar>m\<bar>)") auto

declare normalize.simps [simp del]

definition finish :: "int \<Rightarrow> int \<Rightarrow> js_number" where
  "finish m e =
     (if bitLength \<bar>m\<bar> + e > 1024
      then (if m > 0 then PosInfinity else NegInfinity)
      else normalize m e)"

text \<open>The double nearest to \<open>m * 2 ^ e\<close>, for \<open>- 1074 \<le> e\<close>.\<close>

definition roundDouble :: "int \<Rightarrow> int \<Rightarrow> js_number" where
  "roundDouble m e =
     (let a = \<bar>m\<bar>; b = bitLength a in
      if b \<le> 53 then finish m e
      else (let s = nat (b - 53);
                q = a div 2 ^ s;
                r = a mod 2 ^ s;
                h = 2 ^ (s - 1);
                q' = (if r > h \<or> (r = h \<and> odd q) then q + 1 else q)
            in finish (sgn m * q') (e + int s)))"

text \<open>The operator \<^verbatim>\<open>+\<close> on two numbers.\<close>

fun js_add :: "js_number \<Rightarrow> js_number \<Rightarrow> js_number" where
  "js_add NaN y = NaN"
| "js_add x NaN = NaN"
| "js_add PosInfinity NegInfinity = NaN"
| "js_add NegInfinity PosInfinity = NaN"
| "js_add PosInfinity y = PosInfinity"
| "js_add x PosInfinity = PosInfinity"
| "js_add NegInfinity y = NegInfinity"
| "js_add x NegInfinity = NegInfinity"
| "js_add NegZero y = y"
| "js_add x NegZero = x"
| "js_add (Dbl m1 e1) (Dbl m2 e2) =
     (let e = min e1 e2
      in roundDouble (m1 * 2 ^ nat (e1 - e) + m2 * 2 ^ nat (e2 - e)) e)"

text \<open>The test \<^verbatim>\<open>x > 0\<close>, and the truthiness that \<^verbatim>\<open>x || 0\<close> asks for.\<close>

fun js_gt_zero :: "js_number \<Rightarrow> bool" where
  "js_gt_zero PosInfinity = True"
| "js_gt_zero (Dbl m e) = (m > 0)"
| "js_gt_zero x = False"

fun js_truthy :: "js_number \<Rightarrow> bool" where
  "js_truthy NaN = False"
| "js_truthy NegZero = False"
| "js_truthy (Dbl m e) = (m \<noteq> 0)"
| "js_truthy x = True"

text \<open>An integer literal.\<close>

definition js_int :: "int \<Rightarrow> js_number" where
  "js_int n = roundDouble n 0"

subsection \<open>Records of the application\<close>

text \<open>
  Modelled from the spec: the type declarations \<^verbatim>\<open>Order\<close>, \<^verbatim>\<open>CartItem\<close> and \<^verbatim>\<open>PaymentStatus\<close>
  (\<^verbatim>\<open>types/order\<close>), \<^verbatim>\<open>Table\<close> and \<^verbatim>\<open>Reservation\<close> (\<^verbatim>\<open>types/reservation\<close>) are missing from
  the sources. The records carry the fields the specification lists and the functions
  read: an order has an optional payment record with a status (unpaid, partial, paid) and
  an amount, and one of six statuses. Times are milliseconds since the epoch
  (\<^verbatim>\<open>Date.getTime()\<close>), table numbers and counts are integers.
\<close>

datatype order_status = Pending | Confirmed | Preparing | Ready | Delivered | Cancelled

datatype payment_status = Unpaid | Partial | Paid

record payment =
  p_status :: payment_status
  p_amount :: js_number

record cart_item =
  ci_menuItemId :: string
  ci_quantity :: int
  ci_price :: js_number

record order =
  o_id :: string
  o_tableNumber :: int
  o_items :: "cart_item list"
  o_totalAmount :: js_number
  o_status :: order_status
  o_payment :: "payment option"
  o_createdAt :: int
  o_updatedAt :: int

record table =
  t_id :: string
  t_number :: int
  t_capacity :: nat
  t_location :: string

record reservation =
  r_id :: string
  r_tableNumber :: int
  r_date :: int
  r_status :: string

datatype table_status_type = AVAILABLE | SEATED | ACTIVE_ORDER | OPEN_BILL

record table_status =
  ts_table :: table
  hasActiveOrder :: bool
  orderAmount :: "js_number option"
  isOpenBill :: bool
  isSeated :: bool
  statusType :: table_status_type

record grid_stats =
  totalTables :: int
  available :: int
  occupied :: int
  openBills :: int
  totalRevenue :: js_number

record grid_result =
  tableStatuses :: "table_status list"
  stats :: grid_stats

text \<open>\<^verbatim>\<open>o.payment?.status\<close>: the payment status, absent when the order has no payment record.\<close>

definition paymentStatus :: "order \<Rightarrow> payment_status option" where
  "paymentStatus ord = map_option p_status (o_payment ord)"

text \<open>\<^verbatim>\<open>o.payment?.amount ?? o.totalAmount ?? 0\<close>: both fields are numbers in the model, so the
  last fallback is never taken.\<close>

definition amountOf :: "order \<Rightarrow> js_number" where
  "amountOf ord = (case o_payment ord of Some p \<Rightarrow> p_amount p | None \<Rightarrow> o_totalAmount ord)"

section \<open>The table grid: \<^verbatim>\<open>processTableData\<close>\<close>

text \<open>The two lookup maps are built by the loops of the source, one \<^verbatim>\<open>set\<close> per element.\<close>

definition buildSeatedMap :: "reservation list \<Rightarrow> (int \<rightharpoonup> bool)" where
  "buildSeatedMap reservations = fold (\<lambda>r m. m(r_tableNumber r \<mapsto> True)) reservations Map.empty"

definition buildOrdersMap :: "order list \<Rightarrow> (int \<rightharpoonup> order list)" where
  "buildOrdersMap orders =
     fold (\<lambda>ord m. m(o_tableNumber ord \<mapsto>
                      (case m (o_tableNumber ord) of None \<Rightarrow> [] | Some os \<Rightarrow> os) @ [ord]))
          orders Map.empty"

text \<open>\<^verbatim>\<open>reduce((sum, o) => sum + amount(o), 0)\<close>: the amounts are added from left to right,
  starting from 0.\<close>

definition sumAmounts :: "order list \<Rightarrow> js_number" where
  "sumAmounts os = foldl (\<lambda>s ord. js_add s (amountOf ord)) (Dbl 0 0) os"

definition processTable :: "(int \<rightharpoonup> bool) \<Rightarrow> (int \<rightharpoonup> order list) \<Rightarrow> table \<Rightarrow> table_status" where
  "processTable seatedMap ordersMap tbl =
     (let tableOrders = (case ordersMap (t_number tbl) of None \<Rightarrow> [] | Some os \<Rightarrow> os);
          active = list_ex (\<lambda>ord. o_status ord \<noteq> Cancelled \<and> o_status ord \<noteq> Delivered) tableOrders;
          openBill = list_ex (\<lambda>ord. paymentStatus ord \<noteq> Some Paid) tableOrders;
          unpaidAmount = sumAmounts (filter (\<lambda>ord. paymentStatus ord \<noteq> Some Paid) tableOrders);
          seated = (case seatedMap (t_number tbl) of None \<Rightarrow> False | Some b \<Rightarrow> b)
      in \<lparr> ts_table = tbl,
           hasActiveOrder = active,
           orderAmount = (if js_gt_zero unpaidAmount then Some unpaidAmount else None),
           isOpenBill = openBill,
           isSeated = seated,
           statusType = (if openBill then OPEN_BILL
                         else if active then ACTIVE_ORDER
                         else if seated then SEATED
                         else AVAILABLE) \<rparr>)"

definition processTableData :: "table list \<Rightarrow> order list \<Rightarrow> reservation list \<Rightarrow> grid_result" where
  "processTableData tables orders reservations =
     (let seatedMap = buildSeatedMap reservations;
          ordersMap = buildOrdersMap orders;
          statuses = map (processTable seatedMap ordersMap) tables;
          total = int (length tables);
          avail = int (length (filter (\<lambda>s. statusType s = AVAILABLE) statuses))
      in \<lparr> tableStatuses = statuses,
           stats = \<lparr> totalTables = total,
                     available = avail,
                     occupied = total - avail,
                     openBills = int (length (filter (\<lambda>s. statusType s = OPEN_BILL) statuses)),
                     totalRevenue = sumAmounts (filter (\<lambda>ord. paymentStatus ord = Some Paid) orders) \<rparr> \<rparr>)"

section \<open>The simpler table grid: \<^verbatim>\<open>calculateTableStatuses\<close>\<close>

text \<open>
  The simpler grid keeps, per table, the orders that still occupy it, and looks only at
  the most recent of them. \<^verbatim>\<open>Array.prototype.sort\<close> is stable, and so is \<open>sort_key\<close>; the
  comparator \<^verbatim>\<open>b.createdAt - a.createdAt\<close> orders by descending creation time. The current
  time \<^verbatim>\<open>Date.now()\<close> is the parameter \<open>now\<close>.
\<close>

definition relevantOrders :: "order list \<Rightarrow> table \<Rightarrow> order list" where
  "relevantOrders orders tbl =
     filter (\<lambda>ord.
        if o_tableNumber ord \<noteq> t_number tbl then False
        else if o_status ord = Delivered \<and> paymentStatus ord = Some Paid then False
        else (o_status ord \<in> set [Pending, Confirmed, Preparing] \<or> o_status ord = Delivered))
       orders"

definition activeOrderOf :: "order list \<Rightarrow> table \<Rightarrow> order option" where
  "activeOrderOf orders tbl =
     (case sort_key (\<lambda>ord. - o_createdAt ord) (relevantOrders orders tbl) of
        [] \<Rightarrow> None | a # _ \<Rightarrow> Some a)"

definition recentPaid :: "int \<Rightarrow> order list \<Rightarrow> table \<Rightarrow> order list" where
  "recentPaid now orders tbl =
     filter (\<lambda>ord. o_tableNumber ord = t_number tbl \<and> o_status ord = Delivered \<and>
                  paymentStatus ord = Some Paid \<and>
                  now - o_createdAt ord < 2 * 60 * 60 * 1000) orders"

definition simpleTableStatus :: "int \<Rightarrow> order list \<Rightarrow> table \<Rightarrow> table_status" where
  "simpleTableStatus now orders tbl =
     (let activeOrder = activeOrderOf orders tbl;
          openBill = (case activeOrder of None \<Rightarrow> False
                      | Some a \<Rightarrow> o_status a = Delivered \<and>
                                 (paymentStatus a = Some Unpaid \<or> paymentStatus a = Some Partial));
          active = (activeOrder \<noteq> None \<and> \<not> openBill);
          seated = (\<not> active \<and> \<not> openBill \<and> length (recentPaid now orders tbl) > 0)
      in \<lparr> ts_table = tbl,
           hasActiveOrder = active,
           orderAmount = map_option o_totalAmount activeOrder,
           isOpenBill = openBill,
           isSeated = seated,
           statusType = (if openBill then OPEN_BILL
                         else if active then ACTIVE_ORDER
                         else if seated then SEATED
                         else AVAILABLE) \<rparr>)"

definition calculateTableStatuses :: "int \<Rightarrow> table list \<Rightarrow> order list \<Rightarrow> table_status list" where
  "calculateTableStatuses now tables orders = map (simpleTableStatus now orders) tables"

text \<open>\<^verbatim>\<open>s.orderAmount || 0\<close>: an absent amount, and an amount that is 0 or \<^verbatim>\<open>NaN\<close>, count 0.\<close>

definition calculateStats :: "table_status list \<Rightarrow> grid_stats" where
  "calculateStats statuses =
     \<lparr> totalTables = int (length statuses),
       available = int (length statuses)
                   - int (length (filter (\<lambda>s. hasActiveOrder s \<or> isSeated s) statuses)),
       occupied = int (length (filter (\<lambda>s. hasActiveOrder s \<or> isSeated s) statuses)),
       openBills = int (length (filter isOpenBill statuses)),
       totalRevenue =
         foldl (\<lambda>s st. js_add s (case orderAmount st of
                                    None \<Rightarrow> Dbl 0 0
                                  | Some a \<Rightarrow> if js_truthy a then a else Dbl 0 0))
               (Dbl 0 0) statuses \<rparr>"

section \<open>Scenarios\<close>

definition tbl3 :: table where
  "tbl3 = \<lparr> t_id = ''t3'', t_number = 3, t_capacity = 4, t_location = ''indoor'' \<rparr>"

definition ordA :: order where
  "ordA = \<lparr> o_id = ''a'', o_tableNumber = 3, o_items = [], o_totalAmount = js_int 20,
            o_status = Delivered, o_payment = Some \<lparr> p_status = Paid, p_amount = js_int 20 \<rparr>,
            o_createdAt = 1000, o_updatedAt = 1000 \<rparr>"

definition ordB :: order where
  "ordB = \<lparr> o_id = ''b'', o_tableNumber = 3, o_items = [], o_totalAmount = js_int 15,
            o_status = Pending, o_payment = None,
            o_createdAt = 2000, o_updatedAt = 2000 \<rparr>"

definition ordP :: order where
  "ordP = \<lparr> o_id = ''p'', o_tableNumber = 3, o_items = [], o_totalAmount = js_int 30,
            o_status = Preparing, o_payment = Some \<lparr> p_status = Paid, p_amount = js_int 30 \<rparr>,
            o_createdAt = 2500, o_updatedAt = 2600 \<rparr>"

definition ordR :: order where
  "ordR = \<lparr> o_id = ''r'', o_tableNumber = 3, o_items = [], o_totalAmount = js_int 12,
            o_status = Ready, o_payment = Some \<lparr> p_status = Paid, p_amount = js_int 12 \<rparr>,
            o_createdAt = 2800, o_updatedAt = 2900 \<rparr>"

definition resv3 :: reservation where
  "resv3 = \<lparr> r_id = ''r3'', r_tableNumber = 3, r_date = 0, r_status = ''seated'' \<rparr>"

definition ordD :: order where
  "ordD = \<lparr> o_id = ''d'', o_tableNumber = 3, o_items = [], o_totalAmount = js_int 50,
            o_status = Delivered, o_payment = Some \<lparr> p_status = Unpaid, p_amount = js_int 42 \<rparr>,
            o_createdAt = 1500, o_updatedAt = 1900 \<rparr>"

definition tbl4 :: table where
  "tbl4 = \<lparr> t_id = ''t4'', t_number = 4, t_capacity = 2, t_location = ''vip'' \<rparr>"

text \<open>Two pending orders of 0.10 and 0.20 euros at table 4, and an older pending order.\<close>

definition ordE :: order where
  "ordE = \<lparr> o_id = ''e'', o_tableNumber = 4, o_items = [],
            o_totalAmount = Dbl 3602879701896397 (- 55),
            o_status = Pending, o_payment = None,
            o_createdAt = 2100, o_updatedAt = 2100 \<rparr>"

definition ordF :: order where
  "ordF = \<lparr> o_id = ''f'', o_tableNumber = 4, o_items = [],
            o_totalAmount = Dbl 3602879701896397 (- 54),
            o_status = Pending, o_payment = None,
            o_createdAt = 2200, o_updatedAt = 2200 \<rparr>"

definition ordQ :: order where
  "ordQ = \<lparr> o_id = ''q'', o_tableNumber = 4, o_items = [], o_totalAmount = js_int 8,
            o_status = Pending, o_payment = None,
            o_createdAt = 500, o_updatedAt = 500 \<rparr>"

section \<open>Order management\<close>

text \<open>
  The order manager keeps the order list, the statistics and two flags in component state.
  The order service (\<^verbatim>\<open>services/orderService\<close>) is missing from the sources, so it is a
  parameter, and so are the types of the statistics and of the filters: each of its calls
  takes the backing store and returns an error (\<open>Inl\<close>, the rejected promise) or its
  result (\<open>Inr\<close>). A handler runs to completion on the state it was called with; the values
  \<^verbatim>\<open>isUpdating\<close> and \<^verbatim>\<open>isMounted\<close> are the ones its closure captured. The two
  \<^verbatim>\<open>window.confirm\<close> prompts of the delete handler are answered by the parameter \<open>confirm\<close>.

  The toasts, in the order of the datatype: "Bitte warten Sie, bis die vorherige Aktion
  abgeschlossen ist"; the refusal to delete an order that is confirmed, in preparation or
  done; "Bestellstatus erfolgreich aktualisiert"; "Fehler beim Aktualisieren des
  Bestellstatus"; the success and the failure of a deletion; "Fehler beim Bestaetigen des
  Loyalty Rabatts"; "Fehler beim Laden der Bestellungen: " with the error's message.
\<close>

datatype toast =
    ErrBusy | ErrNotDeletable | OkStatusUpdated | ErrStatusUpdate
  | OkDeleted | ErrDelete | ErrVerify | ErrLoadOrders string

datatype confirm_prompt = ConfirmSure | ConfirmReally

datatype tab_type = InProgress | Completed

record ('s, 'st, 'f) order_service =
  svc_getOrdersWithFilters :: "'s \<Rightarrow> 'f \<Rightarrow> string + order list"
  svc_getOrderStats :: "'s \<Rightarrow> string + 'st"
  svc_updateOrderStatus :: "'s \<Rightarrow> string \<Rightarrow> order_status \<Rightarrow> string + 's"
  svc_deleteOrder :: "'s \<Rightarrow> string \<Rightarrow> string + 's"
  svc_verifyLoyaltyDiscount :: "'s \<Rightarrow> string \<Rightarrow> string + 's"

record ('s, 'st, 'f) manager =
  m_orders :: "order list"
  m_stats :: "'st option"
  m_loading :: bool
  m_filters :: 'f
  activeTab :: tab_type
  isMounted :: bool
  isUpdating :: bool
  toasts :: "toast list"
  store :: 's

definition inProgressStatuses :: "order_status list" where
  "inProgressStatuses = [Pending, Confirmed, Preparing, Ready]"

definition completedStatuses :: "order_status list" where
  "completedStatuses = [Delivered, Cancelled]"

definition getFilteredOrders :: "('s, 'st, 'f) manager \<Rightarrow> order list" where
  "getFilteredOrders st =
     (let statusesToShow = (if activeTab st = InProgress then inProgressStatuses else completedStatuses)
      in filter (\<lambda>ord. o_status ord \<in> set statusesToShow) (m_orders st))"

definition canDeleteOrder :: "order \<Rightarrow> bool" where
  "canDeleteOrder ord = (o_status ord = Pending)"

text \<open>The rows that carry a delete button: a pending order in the tab of the orders in
  progress, a cancelled order in the tab of the completed ones.\<close>

definition deleteButtonShown :: "('s, 'st, 'f) manager \<Rightarrow> order \<Rightarrow> bool" where
  "deleteButtonShown st ord =
     (ord \<in> set (getFilteredOrders st) \<and>
      (if activeTab st = InProgress then o_status ord = Pending \<and> canDeleteOrder ord
       else o_status ord = Cancelled))"

definition loadOrders :: "('s, 'st, 'f) order_service \<Rightarrow> ('s, 'st, 'f) manager \<Rightarrow> ('s, 'st, 'f) manager" where
  "loadOrders svc st =
     (if \<not> isMounted st then st
      else case svc_getOrdersWithFilters svc (store st) (m_filters st) of
             Inr ordersData \<Rightarrow> st\<lparr>m_orders := ordersData, m_loading := False\<rparr>
           | Inl e \<Rightarrow> st\<lparr>toasts := toasts st @ [ErrLoadOrders e], m_loading := False\<rparr>)"

definition loadStats :: "('s, 'st, 'f) order_service \<Rightarrow> ('s, 'st, 'f) manager \<Rightarrow> ('s, 'st, 'f) manager" where
  "loadStats svc st =
     (if \<not> isMounted st then st
      else case svc_getOrderStats svc (store st) of
             Inr statsData \<Rightarrow> st\<lparr>m_stats := Some statsData\<rparr>
           | Inl e \<Rightarrow> st)"

text \<open>What follows a successful store call: the success toast (none for the loyalty
  verification, which only logs), the reload of orders and statistics, the reset of the flag.
  An unmounted component returns at once and leaves the flag set.\<close>

definition afterStoreCall ::
  "('s, 'st, 'f) order_service \<Rightarrow> toast list \<Rightarrow> toast \<Rightarrow> ('s, 'st, 'f) manager \<Rightarrow> string + 's
     \<Rightarrow> ('s, 'st, 'f) manager" where
  "afterStoreCall svc okToast errToast st1 res =
     (case res of
        Inr s' \<Rightarrow>
          (let st2 = st1\<lparr>store := s'\<rparr> in
           if \<not> isMounted st2 then st2
           else (loadStats svc (loadOrders svc (st2\<lparr>toasts := toasts st2 @ okToast\<rparr>)))
                  \<lparr>isUpdating := False\<rparr>)
      | Inl e \<Rightarrow>
          (if \<not> isMounted st1 then st1
           else st1\<lparr>toasts := toasts st1 @ [errToast], isUpdating := False\<rparr>))"

definition updateOrderStatus ::
  "('s, 'st, 'f) order_service \<Rightarrow> ('s, 'st, 'f) manager \<Rightarrow> string \<Rightarrow> order_status
     \<Rightarrow> ('s, 'st, 'f) manager" where
  "updateOrderStatus svc st orderId newStatus =
     (if isUpdating st then st\<lparr>toasts := toasts st @ [ErrBusy]\<rparr>
      else (let st1 = st\<lparr>isUpdating := True\<rparr> in
            afterStoreCall svc [OkStatusUpdated] ErrStatusUpdate st1
              (svc_updateOrderStatus svc (store st1) orderId newStatus)))"

definition deleteOrder ::
  "('s, 'st, 'f) order_service \<Rightarrow> (confirm_prompt \<Rightarrow> bool) \<Rightarrow> ('s, 'st, 'f) manager \<Rightarrow> string
     \<Rightarrow> ('s, 'st, 'f) manager" where
  "deleteOrder svc confirm st orderId =
     (case find (\<lambda>ord. o_id ord = orderId) (m_orders st) of
        None \<Rightarrow> st
      | Some ord \<Rightarrow>
          if \<not> canDeleteOrder ord then st\<lparr>toasts := toasts st @ [ErrNotDeletable]\<rparr>
          else if \<not> confirm ConfirmSure then st
          else if isUpdating st then st\<lparr>toasts := toasts st @ [ErrBusy]\<rparr>
          else if \<not> confirm ConfirmReally then st
          else (let st1 = st\<lparr>isUpdating := True\<rparr> in
                afterStoreCall svc [OkDeleted] ErrDelete st1
                  (svc_deleteOrder svc (store st1) orderId)))"

definition verifyLoyaltyDiscount ::
  "('s, 'st, 'f) order_service \<Rightarrow> ('s, 'st, 'f) manager \<Rightarrow> string \<Rightarrow> ('s, 'st, 'f) manager" where
  "verifyLoyaltyDiscount svc st orderId =
     (if isUpdating st then st\<lparr>toasts := toasts st @ [ErrBusy]\<rparr>
      else (let st1 = st\<lparr>isUpdating := True\<rparr> in
            afterStoreCall svc [] ErrVerify st1
              (svc_verifyLoyaltyDiscount svc (store st1) orderId)))"

text \<open>A store for the examples: the orders themselves, with a service that always succeeds.\<close>

definition listService :: "(order list, nat, unit) order_service" where
  "listService =
     \<lparr> svc_getOrdersWithFilters = (\<lambda>s f. Inr s),
       svc_getOrderStats = (\<lambda>s. Inr (length s)),
       svc_updateOrderStatus =
         (\<lambda>s oid newStatus. Inr (map (\<lambda>ord. if o_id ord = oid then ord\<lparr>o_status := newStatus\<rparr> else ord) s)),
       svc_deleteOrder = (\<lambda>s oid. Inr (filter (\<lambda>ord. o_id ord \<noteq> oid) s)),
       svc_verifyLoyaltyDiscount = (\<lambda>s oid. Inr s) \<rparr>"

definition alwaysConfirm :: "confirm_prompt \<Rightarrow> bool" where
  "alwaysConfirm prompt = True"

definition ordX :: order where
  "ordX = \<lparr> o_id = ''x'', o_tableNumber = 4, o_items = [], o_totalAmount = js_int 9,
            o_status = Cancelled, o_payment = None,
            o_createdAt = 500, o_updatedAt = 700 \<rparr>"

definition mgr0 :: "(order list, nat, unit) manager" where
  "mgr0 = \<lparr> m_orders = [ordB, ordX], m_stats = None, m_loading = False, m_filters = (),
            activeTab = Completed, isMounted = True, isUpdating = False, toasts = [],
            store = [ordB, ordX] \<rparr>"

section \<open>Bar operations\<close>

text \<open>
  Modelled from the spec: the type declaration \<^verbatim>\<open>MenuItem\<close> (\<^verbatim>\<open>types/menu\<close>) is missing from the
  sources; a menu item has an identifier, a name, a category and a price.
\<close>

text \<open>
  \<^verbatim>\<open>OrderWithItem\<close> is the order together with \<^verbatim>\<open>currentItem = {...orderItem, ...menuItem}\<close>. The
  record keeps both parts of the spread; where both have a field of the same name the
  merged object shows the menu item's, and \<^verbatim>\<open>currentItem.category\<close> is the menu item's
  category.
\<close>

record menu_item =
  mi_id :: string
  mi_name :: string
  mi_category :: string
  mi_price :: js_number

record order_with_item =
  owi_order :: order
  owi_orderItem :: cart_item
  owi_menuItem :: menu_item

definition CATEGORIES_DRINKS :: "string set" where
  "CATEGORIES_DRINKS = {''drinks'', ''beverages''}"

definition CATEGORIES_SHISHA :: "string set" where
  "CATEGORIES_SHISHA = {''shisha'', ''hookah'', ''tobacco''}"

text \<open>
  The fingerprint is \<^verbatim>\<open>JSON.stringify\<close> of the list of \<^verbatim>\<open>{id, status, updatedAt}\<close>. The model
  keeps the list of triples itself: the serialisation of such a list determines it. The
  reference \<^verbatim>\<open>lastProcessedOrdersRef\<close> starts as the empty string, which is the serialisation
  of no list; this is \<open>None\<close>.
\<close>

type_synonym fingerprint = "(string \<times> order_status \<times> int) list"

definition ordersHashOf :: "order list \<Rightarrow> fingerprint" where
  "ordersHashOf orders = map (\<lambda>ord. (o_id ord, o_status ord, o_updatedAt ord)) orders"

record bar_state =
  drinkOrders :: "order_with_item list"
  shishaOrders :: "order_with_item list"
  isProcessing :: bool
  lastProcessedOrders :: "fingerprint option"

text \<open>\<^verbatim>\<open>new Map(menuItems.map((item) => [item.id, item]))\<close>: a later item replaces an earlier
  one with the same id.\<close>

definition buildMenuItemsMap :: "menu_item list \<Rightarrow> (string \<rightharpoonup> menu_item)" where
  "buildMenuItemsMap menuItems = fold (\<lambda>item m. m(mi_id item \<mapsto> item)) menuItems Map.empty"

text \<open>The body of the inner loop, on the two lists built so far. An order item without
  menu item only logs a warning.\<close>

definition categorizeItem ::
  "(string \<rightharpoonup> menu_item) \<Rightarrow> order \<Rightarrow> cart_item
     \<Rightarrow> order_with_item list \<times> order_with_item list
     \<Rightarrow> order_with_item list \<times> order_with_item list" where
  "categorizeItem menuItemsMap ord orderItem acc =
     (case menuItemsMap (ci_menuItemId orderItem) of
        Some menuItem \<Rightarrow>
          (let orderWithMenuItem =
                 \<lparr> owi_order = ord, owi_orderItem = orderItem, owi_menuItem = menuItem \<rparr>
           in if mi_category menuItem \<in> CATEGORIES_DRINKS
                then (fst acc @ [orderWithMenuItem], snd acc)
              else if mi_category menuItem \<in> CATEGORIES_SHISHA
                then (fst acc, snd acc @ [orderWithMenuItem])
              else acc)
      | None \<Rightarrow> acc)"

definition categorizeOrders ::
  "menu_item list \<Rightarrow> order list \<Rightarrow> order_with_item list \<times> order_with_item list" where
  "categorizeOrders menuItems orders =
     (let menuItemsMap = buildMenuItemsMap menuItems
      in fold (\<lambda>ord acc. fold (categorizeItem menuItemsMap ord) (o_items ord) acc) orders ([], []))"

definition processOrdersWithMenuItems :: "bar_state \<Rightarrow> order list \<Rightarrow> menu_item list \<Rightarrow> bar_state" where
  "processOrdersWithMenuItems st orders menuItems =
     (if isProcessing st then st
      else (let ordersHash = ordersHashOf orders in
            if Some ordersHash = lastProcessedOrders st then st
            else (let lists = categorizeOrders menuItems orders
                  in st\<lparr> isProcessing := True,
                         lastProcessedOrders := Some ordersHash,
                         drinkOrders := fst lists,
                         shishaOrders := snd lists \<rparr>)))"

text \<open>The timer that clears the processing flag 100 ms after a recomputation.\<close>

definition resetProcessing :: "bar_state \<Rightarrow> bar_state" where
  "resetProcessing st = st\<lparr>isProcessing := False\<rparr>"

definition bar0 :: bar_state where
  "bar0 = \<lparr> drinkOrders = [], shishaOrders = [], isProcessing = False, lastProcessedOrders = None \<rparr>"

definition cola :: menu_item where
  "cola = \<lparr> mi_id = ''m1'', mi_name = ''Cola'', mi_category = ''drinks'', mi_price = js_int 3 \<rparr>"

definition pipe :: menu_item where
  "pipe = \<lparr> mi_id = ''m2'', mi_name = ''Double Apple'', mi_category = ''shisha'', mi_price = js_int 15 \<rparr>"

definition fries :: menu_item where
  "fries = \<lparr> mi_id = ''m3'', mi_name = ''Pommes'', mi_category = ''food'', mi_price = js_int 5 \<rparr>"

definition item :: "string \<Rightarrow> cart_item" where
  "item mid = \<lparr> ci_menuItemId = mid, ci_quantity = 1, ci_price = js_int 0 \<rparr>"

definition ordM :: order where
  "ordM = \<lparr> o_id = ''m'', o_tableNumber = 5,
            o_items = [item ''m1'', item ''m3'', item ''m9'', item ''m2''],
            o_totalAmount = js_int 23, o_status = Pending, o_payment = None,
            o_createdAt = 100, o_updatedAt = 100 \<rparr>"

text \<open>What one order item contributes to each list, for the lemmas on the two loops.\<close>

definition drinkEntry :: "(string \<rightharpoonup> menu_item) \<Rightarrow> order \<Rightarrow> cart_item \<Rightarrow> order_with_item option" where
  "drinkEntry menuItemsMap ord orderItem =
     (case menuItemsMap (ci_menuItemId orderItem) of
        None \<Rightarrow> None
      | Some menuItem \<Rightarrow>
          if mi_category menuItem \<in> CATEGORIES_DRINKS
          then Some \<lparr> owi_order = ord, owi_orderItem = orderItem, owi_menuItem = menuItem \<rparr>
          else None)"

definition shishaEntry :: "(string \<rightharpoonup> menu_item) \<Rightarrow> order \<Rightarrow> cart_item \<Rightarrow> order_with_item option" where
  "shishaEntry menuItemsMap ord orderItem =
     (case menuItemsMap (ci_menuItemId orderItem) of
        None \<Rightarrow> None
      | Some menuItem \<Rightarrow>
          if mi_category menuItem \<notin> CATEGORIES_DRINKS \<and> mi_category menuItem \<in> CATEGORIES_SHISHA
          then Some \<lparr> owi_order = ord, owi_orderItem = orderItem, owi_menuItem = menuItem \<rparr>
          else None)"

section \<open>Lookup maps\<close>

lemma buildOrdersMap_fold:
  "fold (\<lambda>ord m. m(o_tableNumber ord \<mapsto>
                      (case m (o_tableNumber ord) of None \<Rightarrow> [] | Some os \<Rightarrow> os) @ [ord])) orders m0 n
   = (let new = filter (\<lambda>ord. o_tableNumber ord = n) orders in
      if new = [] then m0 n
      else Some ((case m0 n of None \<Rightarrow> [] | Some os \<Rightarrow> os) @ new))"
proof (induction orders arbitrary: m0)
  case Nil
  show ?case by simp
next
  case (Cons a orders)
  show ?case
    unfolding fold_Cons comp_def Cons.IH
    by (auto simp: Let_def split: option.splits)
qed

lemma buildOrdersMap_lookup:
  "(case buildOrdersMap orders n of None \<Rightarrow> [] | Some os \<Rightarrow> os)
   = filter (\<lambda>ord. o_tableNumber ord = n) orders"
  by (simp add: buildOrdersMap_def buildOrdersMap_fold Let_def)

lemma buildSeatedMap_fold:
  "fold (\<lambda>r m. m(r_tableNumber r \<mapsto> True)) reservations m0 n
   = (if n \<in> r_tableNumber ` set reservations then Some True else m0 n)"
  by (induction reservations arbitrary: m0) auto

lemma buildSeatedMap_lookup:
  "(case buildSeatedMap reservations n of None \<Rightarrow> False | Some b \<Rightarrow> b)
   = (n \<in> r_tableNumber ` set reservations)"
  by (simp add: buildSeatedMap_def buildSeatedMap_fold)

section \<open>The derivation, table by table\<close>

lemma processTable_lookup:
  "processTable (buildSeatedMap rs) (buildOrdersMap orders) tbl =
     (let tableOrders = filter (\<lambda>ord. o_tableNumber ord = t_number tbl) orders;
          active = list_ex (\<lambda>ord. o_status ord \<noteq> Cancelled \<and> o_status ord \<noteq> Delivered) tableOrders;
          openBill = list_ex (\<lambda>ord. paymentStatus ord \<noteq> Some Paid) tableOrders;
          unpaidAmount = sumAmounts (filter (\<lambda>ord. paymentStatus ord \<noteq> Some Paid) tableOrders);
          seated = (t_number tbl \<in> r_tableNumber ` set rs)
      in \<lparr> ts_table = tbl,
           hasActiveOrder = active,
           orderAmount = (if js_gt_zero unpaidAmount then Some unpaidAmount else None),
           isOpenBill = openBill,
           isSeated = seated,
           statusType = (if openBill then OPEN_BILL
                         else if active then ACTIVE_ORDER
                         else if seated then SEATED
                         else AVAILABLE) \<rparr>)"
  unfolding processTable_def buildOrdersMap_lookup buildSeatedMap_lookup ..

lemma tableStatuses_nth:
  "i < length tables \<Longrightarrow>
   tableStatuses (processTableData tables orders rs) ! i
     = processTable (buildSeatedMap rs) (buildOrdersMap orders) (tables ! i)"
  by (simp add: processTableData_def Let_def)

lemma calculateTableStatuses_nth:
  "i < length tables \<Longrightarrow>
   calculateTableStatuses now tables orders ! i = simpleTableStatus now orders (tables ! i)"
  by (simp add: calculateTableStatuses_def)

lemma sumAmounts_map:
  assumes "\<And>x. amountOf (g x) = amountOf x"
  shows "sumAmounts (map g xs) = sumAmounts xs"
  by (simp add: sumAmounts_def foldl_map assms)

lemma activeOrderOf_None:
  "activeOrderOf orders tbl = None \<longleftrightarrow> relevantOrders orders tbl = []"
proof -
  have "sort_key f xs = [] \<longleftrightarrow> xs = []" for f :: "order \<Rightarrow> int" and xs
    by (metis length_sort length_0_conv)
  then have "sort_key (\<lambda>ord. - o_createdAt ord) (relevantOrders orders tbl) = []
              \<longleftrightarrow> relevantOrders orders tbl = []" .
  then show ?thesis
    by (cases "sort_key (\<lambda>ord. - o_createdAt ord) (relevantOrders orders tbl)")
       (simp_all add: activeOrderOf_def)
qed

lemma activeOrderOf_Some:
  assumes "activeOrderOf orders tbl = Some a"
  shows "a \<in> set (relevantOrders orders tbl)"
    and "\<forall>b\<in>set (relevantOrders orders tbl). o_createdAt b \<le> o_createdAt a"
proof -
  let ?f = "\<lambda>ord. - o_createdAt ord"
  let ?xs = "relevantOrders orders tbl"
  from assms obtain rest where srt: "sort_key ?f ?xs = a # rest"
    by (auto simp: activeOrderOf_def split: list.splits)
  have "set (sort_key ?f ?xs) = set ?xs" by simp
  with srt have mem: "set ?xs = insert a (set rest)" by simp
  then show "a \<in> set ?xs" by simp
  have "sorted (map ?f (sort_key ?f ?xs))" by (rule sorted_sort_key)
  with srt have "\<forall>b\<in>set rest. ?f a \<le> ?f b" by simp
  with mem show "\<forall>b\<in>set ?xs. o_createdAt b \<le> o_createdAt a" by auto
qed

lemma simple_flags:
  "statusType (simpleTableStatus now orders tbl) = OPEN_BILL \<longleftrightarrow> isOpenBill (simpleTableStatus now orders tbl)"
  "statusType (simpleTableStatus now orders tbl) = ACTIVE_ORDER \<longleftrightarrow> hasActiveOrder (simpleTableStatus now orders tbl)"
  "statusType (simpleTableStatus now orders tbl) = SEATED \<longleftrightarrow> isSeated (simpleTableStatus now orders tbl)"
  by (auto simp: simpleTableStatus_def Let_def)

text \<open>Rule sets that evaluate numbers and the two derivations on concrete snapshots.\<close>

lemmas scenario_defs = tbl3_def ordA_def ordB_def
lemmas js_eval = js_int_def roundDouble_def finish_def bitLength.simps normalize.simps Let_def
lemmas full_eval = tableStatuses_nth processTable_lookup paymentStatus_def sumAmounts_def amountOf_def js_eval
lemmas simple_eval = calculateTableStatuses_def simpleTableStatus_def activeOrderOf_def
  relevantOrders_def recentPaid_def paymentStatus_def Let_def

section \<open>Priority of the open bill\<close>

text \<open>
  Claim C1, as the code has it. In \<^verbatim>\<open>processTableData\<close> a table with at least one order whose
  payment status is not \<^verbatim>\<open>paid\<close> (an order without payment record included) is classified
  \<^verbatim>\<open>open_bill\<close>, whatever its other orders are. In \<^verbatim>\<open>calculateTableStatuses\<close> a table is
  \<^verbatim>\<open>open_bill\<close> exactly when the most recent of its relevant orders is delivered with payment
  \<^verbatim>\<open>unpaid\<close> or \<^verbatim>\<open>partial\<close>.
\<close>

theorem open_bill_priority:
  assumes "i < length tables"
  shows "((\<exists>ord\<in>set orders. o_tableNumber ord = t_number (tables ! i) \<and> paymentStatus ord \<noteq> Some Paid)
            \<longrightarrow> statusType (tableStatuses (processTableData tables orders rs) ! i) = OPEN_BILL)
       \<and> (statusType (calculateTableStatuses now tables orders ! i) = OPEN_BILL
            \<longleftrightarrow> (\<exists>a. activeOrderOf orders (tables ! i) = Some a \<and> o_status a = Delivered \<and>
                     (paymentStatus a = Some Unpaid \<or> paymentStatus a = Some Partial)))"
proof
  show "(\<exists>ord\<in>set orders. o_tableNumber ord = t_number (tables ! i) \<and> paymentStatus ord \<noteq> Some Paid)
            \<longrightarrow> statusType (tableStatuses (processTableData tables orders rs) ! i) = OPEN_BILL"
    using assms
    by (auto simp: tableStatuses_nth processTable_lookup Let_def list_ex_iff)
next
  show "statusType (calculateTableStatuses now tables orders ! i) = OPEN_BILL
            \<longleftrightarrow> (\<exists>a. activeOrderOf orders (tables ! i) = Some a \<and> o_status a = Delivered \<and>
                     (paymentStatus a = Some Unpaid \<or> paymentStatus a = Some Partial))"
    using assms
    by (auto simp: calculateTableStatuses_nth simpleTableStatus_def Let_def split: option.splits)
qed

text \<open>
  The scenario of the claim: table 3 with a delivered and paid order of 20 and a pending
  order of 15 without payment record. \<^verbatim>\<open>processTableData\<close> gives \<^verbatim>\<open>open_bill\<close> with amount 15.
\<close>

theorem open_bill_priority_witness:
  "0 < length [tbl3] \<and>
   (\<exists>ord\<in>set [ordA, ordB]. o_tableNumber ord = t_number ([tbl3] ! 0) \<and> paymentStatus ord \<noteq> Some Paid) \<and>
   statusType (tableStatuses (processTableData [tbl3] [ordA, ordB] []) ! 0) = OPEN_BILL \<and>
   orderAmount (tableStatuses (processTableData [tbl3] [ordA, ordB] []) ! 0) = Some (js_int 15) \<and>
   activeOrderOf [ordA, ordB] ([tbl3] ! 0) = Some ordB \<and>
   statusType (calculateTableStatuses 3000 [tbl3] [ordA, ordB] ! 0) \<noteq> OPEN_BILL"
proof -
  have len: "0 < length [tbl3]" by simp
  have ex: "\<exists>ord\<in>set [ordA, ordB]. o_tableNumber ord = t_number ([tbl3] ! 0) \<and> paymentStatus ord \<noteq> Some Paid"
    by (simp add: scenario_defs paymentStatus_def)
  have amt: "orderAmount (tableStatuses (processTableData [tbl3] [ordA, ordB] []) ! 0) = Some (js_int 15)"
    by (simp add: full_eval scenario_defs)
  have act: "activeOrderOf [ordA, ordB] ([tbl3] ! 0) = Some ordB"
    by (simp add: simple_eval scenario_defs)
  have "o_status ordB \<noteq> Delivered" by (simp add: ordB_def)
  with act len ex amt open_bill_priority [OF len, of "[ordA, ordB]" "[]" 3000]
  show ?thesis by auto
qed

text \<open>
  On the same scenario \<^verbatim>\<open>calculateTableStatuses\<close> looks at the pending order only and gives
  \<^verbatim>\<open>active_order\<close>, although the table has an order that is not paid.
\<close>

theorem open_bill_simple_counterexample:
  "ordB \<in> set [ordA, ordB] \<and> o_tableNumber ordB = t_number tbl3 \<and> paymentStatus ordB \<noteq> Some Paid \<and>
   statusType (calculateTableStatuses 3000 [tbl3] [ordA, ordB] ! 0) = ACTIVE_ORDER \<and>
   statusType (calculateTableStatuses 3000 [tbl3] [ordA, ordB] ! 0) \<noteq> OPEN_BILL \<and>
   orderAmount (calculateTableStatuses 3000 [tbl3] [ordA, ordB] ! 0) = Some (js_int 15)"
  by (simp add: simple_eval scenario_defs)

section \<open>Active orders\<close>

lemma relevantOrders_all_paid:
  assumes "\<forall>ord\<in>set orders. o_tableNumber ord = t_number tbl \<longrightarrow> paymentStatus ord = Some Paid"
  shows "relevantOrders orders tbl
         = filter (\<lambda>ord. o_tableNumber ord = t_number tbl \<and>
                          o_status ord \<in> {Pending, Confirmed, Preparing}) orders"
  unfolding relevantOrders_def
  by (rule filter_cong) (use assms in auto)

text \<open>
  Claim C2, as the code has it. For a table all of whose orders are paid:
  \<^verbatim>\<open>processTableData\<close> classifies it \<^verbatim>\<open>active_order\<close> when one of its orders is pending,
  confirmed, preparing or ready; \<^verbatim>\<open>calculateTableStatuses\<close> does so when one of its orders is
  pending, confirmed or preparing. A ready order is not among the statuses the simpler grid
  keeps, so it frees the table there.
\<close>

theorem active_order_when_paid:
  assumes "i < length tables"
    and "\<forall>x\<in>set orders. o_tableNumber x = t_number (tables ! i) \<longrightarrow> paymentStatus x = Some Paid"
    and "ord \<in> set orders" and "o_tableNumber ord = t_number (tables ! i)"
  shows "(o_status ord \<in> {Pending, Confirmed, Preparing, Ready}
            \<longrightarrow> statusType (tableStatuses (processTableData tables orders rs) ! i) = ACTIVE_ORDER)
       \<and> (o_status ord \<in> {Pending, Confirmed, Preparing}
            \<longrightarrow> statusType (calculateTableStatuses now tables orders ! i) = ACTIVE_ORDER)"
proof (intro conjI impI)
  assume st: "o_status ord \<in> {Pending, Confirmed, Preparing, Ready}"
  let ?T = "filter (\<lambda>x. o_tableNumber x = t_number (tables ! i)) orders"
  have nopen: "\<not> list_ex (\<lambda>x. paymentStatus x \<noteq> Some Paid) ?T"
    using assms(2) by (auto simp: list_ex_iff)
  have act: "list_ex (\<lambda>x. o_status x \<noteq> Cancelled \<and> o_status x \<noteq> Delivered) ?T"
    unfolding list_ex_iff using assms(3,4) st by (intro bexI [of _ ord]) auto
  show "statusType (tableStatuses (processTableData tables orders rs) ! i) = ACTIVE_ORDER"
    using nopen act assms(1) by (simp add: tableStatuses_nth processTable_lookup Let_def)
next
  assume st: "o_status ord \<in> {Pending, Confirmed, Preparing}"
  let ?t = "tables ! i"
  have rel: "relevantOrders orders ?t
         = filter (\<lambda>x. o_tableNumber x = t_number ?t \<and> o_status x \<in> {Pending, Confirmed, Preparing}) orders"
    by (rule relevantOrders_all_paid [OF assms(2)])
  have "ord \<in> set (relevantOrders orders ?t)"
    using assms(3,4) st by (simp add: rel)
  then have "relevantOrders orders ?t \<noteq> []" by auto
  then obtain a where a: "activeOrderOf orders ?t = Some a"
    using activeOrderOf_None [of orders ?t] by (cases "activeOrderOf orders ?t") auto
  from activeOrderOf_Some(1) [OF a] have "o_status a \<noteq> Delivered"
    by (auto simp: rel)
  with a show "statusType (calculateTableStatuses now tables orders ! i) = ACTIVE_ORDER"
    using assms(1) by (simp add: calculateTableStatuses_nth simpleTableStatus_def Let_def)
qed

text \<open>Table 3 with a delivered, paid order and a preparing, paid order.\<close>

theorem active_order_when_paid_witness:
  "0 < length [tbl3] \<and>
   paymentStatus ordA = Some Paid \<and> paymentStatus ordP = Some Paid \<and>
   ordP \<in> set [ordA, ordP] \<and> o_tableNumber ordP = t_number ([tbl3] ! 0) \<and>
   o_status ordP = Preparing \<and>
   statusType (tableStatuses (processTableData [tbl3] [ordA, ordP] []) ! 0) = ACTIVE_ORDER \<and>
   statusType (calculateTableStatuses 3000 [tbl3] [ordA, ordP] ! 0) = ACTIVE_ORDER"
proof -
  have len: "0 < length [tbl3]" by simp
  have paid: "\<forall>x\<in>set [ordA, ordP]. o_tableNumber x = t_number ([tbl3] ! 0) \<longrightarrow> paymentStatus x = Some Paid"
    by (simp add: tbl3_def ordA_def ordP_def paymentStatus_def)
  have mem: "ordP \<in> set [ordA, ordP]" by simp
  have tn: "o_tableNumber ordP = t_number ([tbl3] ! 0)" by (simp add: tbl3_def ordP_def)
  have st: "o_status ordP = Preparing" by (simp add: ordP_def)
  have pa: "paymentStatus ordA = Some Paid" and pp: "paymentStatus ordP = Some Paid"
    by (simp_all add: ordA_def ordP_def paymentStatus_def)
  from active_order_when_paid [OF len paid mem tn, of "[]" 3000] len pa pp mem tn st
  show ?thesis by simp
qed

text \<open>
  Table 3 whose only order is ready and paid: the simpler grid drops the order and shows the
  table as available.
\<close>

theorem ready_order_simple_counterexample:
  "paymentStatus ordR = Some Paid \<and>
   ordR \<in> set [ordR] \<and> o_tableNumber ordR = t_number tbl3 \<and>
   o_status ordR \<in> {Pending, Confirmed, Preparing, Ready} \<and>
   statusType (calculateTableStatuses 3000 [tbl3] [ordR] ! 0) = AVAILABLE \<and>
   statusType (calculateTableStatuses 3000 [tbl3] [ordR] ! 0) \<noteq> ACTIVE_ORDER"
  by (simp add: simple_eval tbl3_def ordR_def)

section \<open>Seated tables\<close>

text \<open>
  Claim C3, as the code has it. For a table with no active order and no open bill:
  \<^verbatim>\<open>processTableData\<close> classifies it \<^verbatim>\<open>seated\<close> exactly when the reservation list it was given
  holds a reservation with the table's number, and \<^verbatim>\<open>available\<close> otherwise; it does not look
  at the age of paid orders. \<^verbatim>\<open>calculateTableStatuses\<close> classifies it \<^verbatim>\<open>seated\<close> exactly when
  the table has a delivered and paid order created less than two hours before the current
  time, and \<^verbatim>\<open>available\<close> otherwise; it knows no reservations.
\<close>

theorem seated_or_available:
  assumes "i < length tables"
  shows "(\<not> hasActiveOrder (tableStatuses (processTableData tables orders rs) ! i) \<and>
          \<not> isOpenBill (tableStatuses (processTableData tables orders rs) ! i)
            \<longrightarrow> statusType (tableStatuses (processTableData tables orders rs) ! i)
                 = (if \<exists>r\<in>set rs. r_tableNumber r = t_number (tables ! i) then SEATED else AVAILABLE))
       \<and> (\<not> hasActiveOrder (calculateTableStatuses now tables orders ! i) \<and>
          \<not> isOpenBill (calculateTableStatuses now tables orders ! i)
            \<longrightarrow> statusType (calculateTableStatuses now tables orders ! i)
                 = (if \<exists>ord\<in>set orders. o_tableNumber ord = t_number (tables ! i) \<and>
                           o_status ord = Delivered \<and> paymentStatus ord = Some Paid \<and>
                           now - o_createdAt ord < 7200000
                    then SEATED else AVAILABLE))"
proof (intro conjI impI)
  assume "\<not> hasActiveOrder (tableStatuses (processTableData tables orders rs) ! i) \<and>
          \<not> isOpenBill (tableStatuses (processTableData tables orders rs) ! i)"
  then show "statusType (tableStatuses (processTableData tables orders rs) ! i)
                 = (if \<exists>r\<in>set rs. r_tableNumber r = t_number (tables ! i) then SEATED else AVAILABLE)"
    using assms by (auto simp: tableStatuses_nth processTable_lookup Let_def image_iff)
next
  let ?P = "\<lambda>ord. o_tableNumber ord = t_number (tables ! i) \<and>
                           o_status ord = Delivered \<and> paymentStatus ord = Some Paid \<and>
                           now - o_createdAt ord < 7200000"
  have len: "(0 < length (recentPaid now orders (tables ! i))) = (\<exists>ord\<in>set orders. ?P ord)"
    by (auto simp: recentPaid_def filter_empty_conv)
  assume "\<not> hasActiveOrder (calculateTableStatuses now tables orders ! i) \<and>
          \<not> isOpenBill (calculateTableStatuses now tables orders ! i)"
  then have none: "activeOrderOf orders (tables ! i) = None"
    using assms
    by (cases "activeOrderOf orders (tables ! i)")
       (auto simp: calculateTableStatuses_nth simpleTableStatus_def Let_def)
  show "statusType (calculateTableStatuses now tables orders ! i)
                 = (if \<exists>ord\<in>set orders. ?P ord then SEATED else AVAILABLE)"
    using assms len none by (simp add: calculateTableStatuses_nth simpleTableStatus_def Let_def)
qed

text \<open>Table 3 with a reservation, and with a paid order delivered one minute ago.\<close>

theorem seated_or_available_witness:
  "0 < length [tbl3] \<and>
   \<not> hasActiveOrder (tableStatuses (processTableData [tbl3] [ordA] [resv3]) ! 0) \<and>
   \<not> isOpenBill (tableStatuses (processTableData [tbl3] [ordA] [resv3]) ! 0) \<and>
   statusType (tableStatuses (processTableData [tbl3] [ordA] [resv3]) ! 0) = SEATED \<and>
   \<not> hasActiveOrder (calculateTableStatuses 61000 [tbl3] [ordA] ! 0) \<and>
   \<not> isOpenBill (calculateTableStatuses 61000 [tbl3] [ordA] ! 0) \<and>
   statusType (calculateTableStatuses 61000 [tbl3] [ordA] ! 0) = SEATED"
proof -
  have len: "0 < length [tbl3]" by simp
  have f: "\<not> hasActiveOrder (tableStatuses (processTableData [tbl3] [ordA] [resv3]) ! 0) \<and>
           \<not> isOpenBill (tableStatuses (processTableData [tbl3] [ordA] [resv3]) ! 0)"
    by (simp add: full_eval tbl3_def ordA_def)
  have s: "\<not> hasActiveOrder (calculateTableStatuses 61000 [tbl3] [ordA] ! 0) \<and>
           \<not> isOpenBill (calculateTableStatuses 61000 [tbl3] [ordA] ! 0)"
    by (simp add: simple_eval tbl3_def ordA_def)
  have r: "\<exists>r\<in>set [resv3]. r_tableNumber r = t_number ([tbl3] ! 0)"
    by (simp add: resv3_def tbl3_def)
  have p: "\<exists>ord\<in>set [ordA]. o_tableNumber ord = t_number ([tbl3] ! 0) \<and>
             o_status ord = Delivered \<and> paymentStatus ord = Some Paid \<and> 61000 - o_createdAt ord < 7200000"
    by (simp add: ordA_def tbl3_def paymentStatus_def)
  from seated_or_available [OF len, of "[ordA]" "[resv3]" 61000] f s r p len
  show ?thesis by simp
qed

text \<open>
  Table 3 with a delivered and paid order created one minute ago and no reservation:
  \<^verbatim>\<open>processTableData\<close> gives \<^verbatim>\<open>available\<close>, where the claim asks for \<^verbatim>\<open>seated\<close>.
\<close>

theorem recent_paid_full_counterexample:
  "\<not> hasActiveOrder (tableStatuses (processTableData [tbl3] [ordA] []) ! 0) \<and>
   \<not> isOpenBill (tableStatuses (processTableData [tbl3] [ordA] []) ! 0) \<and>
   o_tableNumber ordA = t_number tbl3 \<and> o_status ordA = Delivered \<and>
   paymentStatus ordA = Some Paid \<and> 61000 - o_createdAt ordA < 2 * 60 * 60 * 1000 \<and>
   statusType (tableStatuses (processTableData [tbl3] [ordA] []) ! 0) = AVAILABLE \<and>
   statusType (tableStatuses (processTableData [tbl3] [ordA] []) ! 0) \<noteq> SEATED"
  by (simp add: full_eval tbl3_def ordA_def)

section \<open>Outstanding amounts\<close>

text \<open>Double addition rounds: 2^53 + 1 is 2^53, and 0.1 + 0.2 is 0.30000000000000004.\<close>

lemma js_add_rounds:
  "js_add (js_int 9007199254740992) (js_int 1) = js_int 9007199254740992"
  "js_add (Dbl 3602879701896397 (- 55)) (Dbl 3602879701896397 (- 54)) = Dbl 1351079888211149 (- 52)"
  by (simp_all add: js_eval)

text \<open>
  Claim C4, as the code has it. \<^verbatim>\<open>processTableData\<close> reports for a table the sum, over the
  table's orders whose payment status is not \<^verbatim>\<open>paid\<close>, of \<^verbatim>\<open>payment.amount\<close>, or of
  \<^verbatim>\<open>totalAmount\<close> for an order without payment record. The sum is the one JavaScript
  computes: the amounts are added as doubles from left to right, in the order of the order
  list, starting from 0. It is reported when it is greater than 0, and no amount is
  reported otherwise. \<^verbatim>\<open>calculateTableStatuses\<close> reports the \<^verbatim>\<open>totalAmount\<close> of the most recently
  created relevant order of the table, and no amount when there is none.
\<close>

theorem outstanding_amount:
  assumes "i < length tables"
  shows "orderAmount (tableStatuses (processTableData tables orders rs) ! i)
           = (let s = foldl (\<lambda>s ord. js_add s (amountOf ord)) (Dbl 0 0)
                        (filter (\<lambda>ord. o_tableNumber ord = t_number (tables ! i) \<and>
                                        paymentStatus ord \<noteq> Some Paid) orders)
              in if js_gt_zero s then Some s else None)
       \<and> (\<forall>ord p. o_payment ord = Some p \<longrightarrow> amountOf ord = p_amount p)
       \<and> (\<forall>ord. o_payment ord = None \<longrightarrow> amountOf ord = o_totalAmount ord)
       \<and> orderAmount (calculateTableStatuses now tables orders ! i)
           = map_option o_totalAmount (activeOrderOf orders (tables ! i))
       \<and> (\<forall>a. activeOrderOf orders (tables ! i) = Some a \<longrightarrow>
               a \<in> set (relevantOrders orders (tables ! i)) \<and>
               (\<forall>b\<in>set (relevantOrders orders (tables ! i)). o_createdAt b \<le> o_createdAt a))"
proof (intro conjI)
  have "filter (\<lambda>ord. paymentStatus ord \<noteq> Some Paid)
          (filter (\<lambda>ord. o_tableNumber ord = t_number (tables ! i)) orders)
        = filter (\<lambda>ord. o_tableNumber ord = t_number (tables ! i) \<and> paymentStatus ord \<noteq> Some Paid) orders"
    by (simp add: conj_commute)
  then show "orderAmount (tableStatuses (processTableData tables orders rs) ! i)
           = (let s = foldl (\<lambda>s ord. js_add s (amountOf ord)) (Dbl 0 0)
                        (filter (\<lambda>ord. o_tableNumber ord = t_number (tables ! i) \<and>
                                        paymentStatus ord \<noteq> Some Paid) orders)
              in if js_gt_zero s then Some s else None)"
    using assms
    by (simp add: tableStatuses_nth processTable_lookup Let_def sumAmounts_def)
next
  show "\<forall>ord p. o_payment ord = Some p \<longrightarrow> amountOf ord = p_amount p"
    by (simp add: amountOf_def)
next
  show "\<forall>ord. o_payment ord = None \<longrightarrow> amountOf ord = o_totalAmount ord"
    by (simp add: amountOf_def)
next
  show "orderAmount (calculateTableStatuses now tables orders ! i)
           = map_option o_totalAmount (activeOrderOf orders (tables ! i))"
    using assms by (simp add: calculateTableStatuses_nth simpleTableStatus_def Let_def)
next
  show "\<forall>a. activeOrderOf orders (tables ! i) = Some a \<longrightarrow>
               a \<in> set (relevantOrders orders (tables ! i)) \<and>
               (\<forall>b\<in>set (relevantOrders orders (tables ! i)). o_createdAt b \<le> o_createdAt a)"
    using activeOrderOf_Some by blast
qed

text \<open>
  Table 3 with a pending order of 15 without payment record and a delivered order of 50
  with an unpaid payment of 42: the amount is 15 + 42, and the delivered order alone gives
  42. Table 4 with two orders of 0.10 and 0.20: the amount is the double 0.30000000000000004.
\<close>

theorem outstanding_amount_witness:
  "0 < length [tbl3] \<and>
   amountOf ordB = js_int 15 \<and> amountOf ordD = js_int 42 \<and> o_totalAmount ordD = js_int 50 \<and>
   orderAmount (tableStatuses (processTableData [tbl3] [ordB, ordD] []) ! 0) = Some (js_int 57) \<and>
   orderAmount (tableStatuses (processTableData [tbl3] [ordD] []) ! 0) = Some (js_int 42) \<and>
   statusType (tableStatuses (processTableData [tbl3] [ordD] []) ! 0) = OPEN_BILL \<and>
   orderAmount (tableStatuses (processTableData [tbl4] [ordE, ordF] []) ! 0)
     = Some (Dbl 1351079888211149 (- 52)) \<and>
   activeOrderOf [ordB, ordD] ([tbl3] ! 0) = Some ordB \<and>
   orderAmount (calculateTableStatuses 3000 [tbl3] [ordB, ordD] ! 0) = Some (js_int 15)"
proof -
  have len: "0 < length [tbl3]" by simp
  have sum: "foldl (\<lambda>s ord. js_add s (amountOf ord)) (Dbl 0 0)
               (filter (\<lambda>ord. o_tableNumber ord = t_number ([tbl3] ! 0) \<and>
                               paymentStatus ord \<noteq> Some Paid) [ordB, ordD]) = js_int 57"
    by (simp add: tbl3_def ordB_def ordD_def paymentStatus_def amountOf_def js_eval)
  have pos: "js_gt_zero (js_int 57)" by (simp add: js_eval)
  have am: "amountOf ordB = js_int 15" "amountOf ordD = js_int 42" "o_totalAmount ordD = js_int 50"
    by (simp_all add: ordB_def ordD_def amountOf_def)
  have one: "orderAmount (tableStatuses (processTableData [tbl3] [ordD] []) ! 0) = Some (js_int 42)"
            "statusType (tableStatuses (processTableData [tbl3] [ordD] []) ! 0) = OPEN_BILL"
    by (simp_all add: full_eval tbl3_def ordD_def)
  have frac: "orderAmount (tableStatuses (processTableData [tbl4] [ordE, ordF] []) ! 0)
                = Some (Dbl 1351079888211149 (- 52))"
    by (simp add: full_eval tbl4_def ordE_def ordF_def)
  have act: "activeOrderOf [ordB, ordD] ([tbl3] ! 0) = Some ordB"
    by (simp add: simple_eval tbl3_def ordB_def ordD_def)
  have tot: "o_totalAmount ordB = js_int 15" by (simp add: ordB_def)
  from outstanding_amount [OF len, of "[ordB, ordD]" "[]" 3000] sum pos am one frac act tot len
  show ?thesis by (simp add: Let_def)
qed

text \<open>
  On the two unpaid orders of table 3 the sum is 57 and the simpler grid reports 15, the
  total of the later order. Table 4 has none of these orders: its sum is 0, and
  \<^verbatim>\<open>processTableData\<close> reports no amount for it.
\<close>

theorem outstanding_amount_counterexample:
  "o_tableNumber ordB = t_number tbl3 \<and> paymentStatus ordB \<noteq> Some Paid \<and>
   o_tableNumber ordD = t_number tbl3 \<and> paymentStatus ordD \<noteq> Some Paid \<and>
   js_add (js_add (Dbl 0 0) (amountOf ordB)) (amountOf ordD) = js_int 57 \<and>
   orderAmount (calculateTableStatuses 3000 [tbl3] [ordB, ordD] ! 0) = Some (js_int 15) \<and>
   js_int 15 \<noteq> js_int 57 \<and>
   o_tableNumber ordB \<noteq> t_number tbl4 \<and> o_tableNumber ordD \<noteq> t_number tbl4 \<and>
   orderAmount (tableStatuses (processTableData [tbl4] [ordB, ordD] []) ! 0) = None \<and>
   orderAmount (tableStatuses (processTableData [tbl4] [ordB, ordD] []) ! 0) \<noteq> Some (Dbl 0 0)"
proof -
  have a: "o_tableNumber ordB = t_number tbl3 \<and> paymentStatus ordB \<noteq> Some Paid \<and>
           o_tableNumber ordD = t_number tbl3 \<and> paymentStatus ordD \<noteq> Some Paid \<and>
           o_tableNumber ordB \<noteq> t_number tbl4 \<and> o_tableNumber ordD \<noteq> t_number tbl4"
    by (simp add: tbl3_def tbl4_def ordB_def ordD_def paymentStatus_def)
  have b: "js_add (js_add (Dbl 0 0) (amountOf ordB)) (amountOf ordD) = js_int 57"
          "js_int 15 \<noteq> js_int 57"
    by (simp_all add: ordB_def ordD_def amountOf_def js_eval)
  have c: "orderAmount (calculateTableStatuses 3000 [tbl3] [ordB, ordD] ! 0) = Some (js_int 15)"
    by (simp add: simple_eval tbl3_def ordB_def ordD_def)
  have d: "orderAmount (tableStatuses (processTableData [tbl4] [ordB, ordD] []) ! 0) = None"
    by (simp add: full_eval tbl4_def ordB_def ordD_def)
  from a b c d show ?thesis by simp
qed

section \<open>Dependence on the clock\<close>

lemma processTable_timestamps:
  "processTable (buildSeatedMap rs)
      (buildOrdersMap (map (\<lambda>ord. ord\<lparr>o_createdAt := c ord, o_updatedAt := u ord\<rparr>) orders)) tbl
   = processTable (buildSeatedMap rs) (buildOrdersMap orders) tbl"
proof -
  let ?g = "\<lambda>ord. ord\<lparr>o_createdAt := c ord, o_updatedAt := u ord\<rparr>"
  have ps: "paymentStatus (?g x) = paymentStatus x" for x by (simp add: paymentStatus_def)
  have am: "amountOf (?g x) = amountOf x" for x by (simp add: amountOf_def split: option.splits)
  have sa: "sumAmounts (map ?g xs) = sumAmounts xs" for xs
    by (rule sumAmounts_map) (rule am)
  show ?thesis
    unfolding processTable_lookup
    by (simp add: filter_map comp_def list_ex_iff ps sa)
qed

text \<open>
  Claim C5, as the code has it. The result of \<^verbatim>\<open>processTableData\<close> is determined by its three
  arguments, and it does not change when the time stamps of the orders do: it has nothing
  to compare a clock with. \<^verbatim>\<open>calculateTableStatuses\<close> reads \<^verbatim>\<open>Date.now()\<close>: two runs on the same
  snapshot give the same statuses and the same stats when the two clock readings put the
  same delivered and paid orders inside the two-hour window.
\<close>

theorem derivation_clock_dependence:
  "processTableData tables (map (\<lambda>ord. ord\<lparr>o_createdAt := c ord, o_updatedAt := u ord\<rparr>) orders) rs
     = processTableData tables orders rs
   \<and> ((\<forall>ord\<in>set orders. o_status ord = Delivered \<and> paymentStatus ord = Some Paid \<longrightarrow>
           (now1 - o_createdAt ord < 2 * 60 * 60 * 1000)
             = (now2 - o_createdAt ord < 2 * 60 * 60 * 1000))
       \<longrightarrow> calculateTableStatuses now1 tables orders = calculateTableStatuses now2 tables orders
         \<and> calculateStats (calculateTableStatuses now1 tables orders)
           = calculateStats (calculateTableStatuses now2 tables orders))"
proof (intro conjI impI)
  let ?g = "\<lambda>ord. ord\<lparr>o_createdAt := c ord, o_updatedAt := u ord\<rparr>"
  have ps: "paymentStatus (?g x) = paymentStatus x" for x by (simp add: paymentStatus_def)
  have am: "amountOf (?g x) = amountOf x" for x by (simp add: amountOf_def split: option.splits)
  have "filter (\<lambda>ord. paymentStatus ord = Some Paid) (map ?g orders)
          = map ?g (filter (\<lambda>ord. paymentStatus ord = Some Paid) orders)"
    by (simp add: filter_map comp_def ps)
  then have rev: "sumAmounts (filter (\<lambda>ord. paymentStatus ord = Some Paid) (map ?g orders))
           = sumAmounts (filter (\<lambda>ord. paymentStatus ord = Some Paid) orders)"
    by (simp add: sumAmounts_map am)
  show "processTableData tables (map ?g orders) rs = processTableData tables orders rs"
    unfolding processTableData_def Let_def processTable_timestamps rev ..
next
  assume agree: "\<forall>ord\<in>set orders. o_status ord = Delivered \<and> paymentStatus ord = Some Paid \<longrightarrow>
           (now1 - o_createdAt ord < 2 * 60 * 60 * 1000)
             = (now2 - o_createdAt ord < 2 * 60 * 60 * 1000)"
  have "recentPaid now1 orders tbl = recentPaid now2 orders tbl" for tbl
    unfolding recentPaid_def by (rule filter_cong) (use agree in auto)
  then have "simpleTableStatus now1 orders = simpleTableStatus now2 orders"
    by (simp add: simpleTableStatus_def fun_eq_iff)
  then show eq: "calculateTableStatuses now1 tables orders = calculateTableStatuses now2 tables orders"
    by (simp add: calculateTableStatuses_def)
  then show "calculateStats (calculateTableStatuses now1 tables orders)
           = calculateStats (calculateTableStatuses now2 tables orders)"
    by simp
qed

text \<open>
  Table 3 with a delivered and paid order, table 4 with a pending one. The two readings
  keep the paid order inside the window and differ on the pending order, which does not
  count: the statuses are the same. The counterexample below shows a third reading that
  changes them.
\<close>

theorem derivation_clock_dependence_witness:
  "o_status ordA = Delivered \<and> paymentStatus ordA = Some Paid \<and>
   61000 - o_createdAt ordA < 2 * 60 * 60 * 1000 \<and> 7200600 - o_createdAt ordA < 2 * 60 * 60 * 1000 \<and>
   o_status ordQ = Pending \<and>
   61000 - o_createdAt ordQ < 2 * 60 * 60 * 1000 \<and> \<not> 7200600 - o_createdAt ordQ < 2 * 60 * 60 * 1000 \<and>
   map statusType (calculateTableStatuses 61000 [tbl3, tbl4] [ordA, ordQ]) = [SEATED, ACTIVE_ORDER] \<and>
   calculateTableStatuses 61000 [tbl3, tbl4] [ordA, ordQ]
     = calculateTableStatuses 7200600 [tbl3, tbl4] [ordA, ordQ] \<and>
   calculateStats (calculateTableStatuses 61000 [tbl3, tbl4] [ordA, ordQ])
     = calculateStats (calculateTableStatuses 7200600 [tbl3, tbl4] [ordA, ordQ]) \<and>
   processTableData [tbl3, tbl4] (map (\<lambda>ord. ord\<lparr>o_createdAt := 0, o_updatedAt := 0\<rparr>) [ordA, ordQ]) []
     = processTableData [tbl3, tbl4] [ordA, ordQ] []"
proof -
  have agree: "\<forall>ord\<in>set [ordA, ordQ]. o_status ord = Delivered \<and> paymentStatus ord = Some Paid \<longrightarrow>
           ((61000::int) - o_createdAt ord < 2 * 60 * 60 * 1000)
             = ((7200600::int) - o_createdAt ord < 2 * 60 * 60 * 1000)"
    by (simp add: ordA_def ordQ_def)
  have a: "o_status ordA = Delivered \<and> paymentStatus ordA = Some Paid \<and>
           61000 - o_createdAt ordA < 2 * 60 * 60 * 1000 \<and> 7200600 - o_createdAt ordA < 2 * 60 * 60 * 1000"
    by (simp add: ordA_def paymentStatus_def)
  have q: "o_status ordQ = Pending \<and>
           61000 - o_createdAt ordQ < 2 * 60 * 60 * 1000 \<and> \<not> 7200600 - o_createdAt ordQ < 2 * 60 * 60 * 1000"
    by (simp add: ordQ_def)
  have st: "map statusType (calculateTableStatuses 61000 [tbl3, tbl4] [ordA, ordQ]) = [SEATED, ACTIVE_ORDER]"
    by (simp add: simple_eval tbl3_def tbl4_def ordA_def ordQ_def)
  from derivation_clock_dependence
         [of "[tbl3, tbl4]" "\<lambda>_. 0" "\<lambda>_. 0" "[ordA, ordQ]" "[]" 61000 7200600] agree a q st
  show ?thesis by blast
qed

text \<open>
  The same snapshot, table 3 with a delivered and paid order, gives a seated table one
  minute after the order and an available table two hours after it.
\<close>

theorem clock_dependence_counterexample:
  "calculateTableStatuses 61000 [tbl3] [ordA] \<noteq> calculateTableStatuses 7201000 [tbl3] [ordA] \<and>
   map statusType (calculateTableStatuses 61000 [tbl3] [ordA]) = [SEATED] \<and>
   map statusType (calculateTableStatuses 7201000 [tbl3] [ordA]) = [AVAILABLE] \<and>
   occupied (calculateStats (calculateTableStatuses 61000 [tbl3] [ordA])) = 1 \<and>
   occupied (calculateStats (calculateTableStatuses 7201000 [tbl3] [ordA])) = 0"
proof -
  have a: "map statusType (calculateTableStatuses 61000 [tbl3] [ordA]) = [SEATED]"
    by (simp add: simple_eval tbl3_def ordA_def)
  have b: "map statusType (calculateTableStatuses 7201000 [tbl3] [ordA]) = [AVAILABLE]"
    by (simp add: simple_eval tbl3_def ordA_def)
  have c: "occupied (calculateStats (calculateTableStatuses 61000 [tbl3] [ordA])) = 1"
    by (simp add: calculateStats_def simple_eval tbl3_def ordA_def)
  have d: "occupied (calculateStats (calculateTableStatuses 7201000 [tbl3] [ordA])) = 0"
    by (simp add: calculateStats_def simple_eval tbl3_def ordA_def)
  from a b have "calculateTableStatuses 61000 [tbl3] [ordA] \<noteq> calculateTableStatuses 7201000 [tbl3] [ordA]"
    by auto
  with a b c d show ?thesis by blast
qed

section \<open>Statistics of the simpler grid\<close>

lemma simple_occupied_iff:
  "(hasActiveOrder (simpleTableStatus now orders tbl) \<or> isSeated (simpleTableStatus now orders tbl))
   \<longleftrightarrow> \<not> (statusType (simpleTableStatus now orders tbl) = OPEN_BILL \<or>
          statusType (simpleTableStatus now orders tbl) = AVAILABLE)"
  by (auto simp: simpleTableStatus_def Let_def)

lemma length_filter_compl:
  "int (length xs) - int (length (filter P xs)) = int (length (filter (\<lambda>x. \<not> P x) xs))"
  using sum_length_filter_compl [of P xs] by simp

text \<open>
  Claim C9. In the simpler grid the statistic \<^verbatim>\<open>occupied\<close> counts the tables with
  \<^verbatim>\<open>hasActiveOrder\<close> or \<^verbatim>\<open>isSeated\<close>, and \<^verbatim>\<open>available\<close> is the number of tables minus \<^verbatim>\<open>occupied\<close>.
  A table classified \<^verbatim>\<open>open_bill\<close> has neither flag, so \<^verbatim>\<open>available\<close> counts exactly the tables
  classified \<^verbatim>\<open>open_bill\<close> or \<^verbatim>\<open>available\<close>.
\<close>

theorem open_bill_counted_available:
  "available (calculateStats (calculateTableStatuses now tables orders))
     = int (length (filter (\<lambda>s. statusType s = OPEN_BILL \<or> statusType s = AVAILABLE)
                     (calculateTableStatuses now tables orders)))
   \<and> occupied (calculateStats (calculateTableStatuses now tables orders))
     = int (length (filter (\<lambda>s. hasActiveOrder s \<or> isSeated s)
                     (calculateTableStatuses now tables orders)))
   \<and> available (calculateStats (calculateTableStatuses now tables orders))
     = totalTables (calculateStats (calculateTableStatuses now tables orders))
       - occupied (calculateStats (calculateTableStatuses now tables orders))
   \<and> (\<forall>s\<in>set (calculateTableStatuses now tables orders).
         statusType s = OPEN_BILL \<longrightarrow> isOpenBill s \<and> \<not> hasActiveOrder s \<and> \<not> isSeated s)"
proof (intro conjI)
  let ?S = "calculateTableStatuses now tables orders"
  have occ: "\<forall>s\<in>set ?S. (\<not> (hasActiveOrder s \<or> isSeated s))
                         = (statusType s = OPEN_BILL \<or> statusType s = AVAILABLE)"
    using simple_occupied_iff by (auto simp: calculateTableStatuses_def)
  have "filter (\<lambda>s. \<not> (hasActiveOrder s \<or> isSeated s)) ?S
        = filter (\<lambda>s. statusType s = OPEN_BILL \<or> statusType s = AVAILABLE) ?S"
    by (rule filter_cong) (use occ in auto)
  then show "available (calculateStats ?S)
     = int (length (filter (\<lambda>s. statusType s = OPEN_BILL \<or> statusType s = AVAILABLE) ?S))"
    by (simp add: calculateStats_def length_filter_compl)
  show "occupied (calculateStats ?S) = int (length (filter (\<lambda>s. hasActiveOrder s \<or> isSeated s) ?S))"
    by (simp add: calculateStats_def)
  show "available (calculateStats ?S) = totalTables (calculateStats ?S) - occupied (calculateStats ?S)"
    by (simp add: calculateStats_def)
  show "\<forall>s\<in>set ?S. statusType s = OPEN_BILL \<longrightarrow> isOpenBill s \<and> \<not> hasActiveOrder s \<and> \<not> isSeated s"
    by (auto simp: calculateTableStatuses_def simpleTableStatus_def Let_def)
qed

text \<open>Table 3 with an open bill and table 4 without orders: both count as available.\<close>

theorem open_bill_counted_available_witness:
  "map statusType (calculateTableStatuses 3000 [tbl3, tbl4] [ordD]) = [OPEN_BILL, AVAILABLE] \<and>
   map hasActiveOrder (calculateTableStatuses 3000 [tbl3, tbl4] [ordD]) = [False, False] \<and>
   map isSeated (calculateTableStatuses 3000 [tbl3, tbl4] [ordD]) = [False, False] \<and>
   available (calculateStats (calculateTableStatuses 3000 [tbl3, tbl4] [ordD])) = 2 \<and>
   occupied (calculateStats (calculateTableStatuses 3000 [tbl3, tbl4] [ordD])) = 0 \<and>
   openBills (calculateStats (calculateTableStatuses 3000 [tbl3, tbl4] [ordD])) = 1"
proof -
  have m: "map statusType (calculateTableStatuses 3000 [tbl3, tbl4] [ordD]) = [OPEN_BILL, AVAILABLE]"
    by (simp add: simple_eval tbl3_def tbl4_def ordD_def)
  have f: "length (filter (\<lambda>s. statusType s = OPEN_BILL \<or> statusType s = AVAILABLE)
                     (calculateTableStatuses 3000 [tbl3, tbl4] [ordD])) = 2"
    by (simp add: simple_eval tbl3_def tbl4_def ordD_def)
  have g: "length (filter (\<lambda>s. hasActiveOrder s \<or> isSeated s)
                     (calculateTableStatuses 3000 [tbl3, tbl4] [ordD])) = 0"
    by (simp add: simple_eval tbl3_def tbl4_def ordD_def)
  have ob: "openBills (calculateStats (calculateTableStatuses 3000 [tbl3, tbl4] [ordD])) = 1"
    by (simp add: calculateStats_def simple_eval tbl3_def tbl4_def ordD_def)
  have h: "map hasActiveOrder (calculateTableStatuses 3000 [tbl3, tbl4] [ordD]) = [False, False]"
    and i: "map isSeated (calculateTableStatuses 3000 [tbl3, tbl4] [ordD]) = [False, False]"
    by (simp_all add: simple_eval tbl3_def tbl4_def ordD_def)
  from open_bill_counted_available [of 3000 "[tbl3, tbl4]" "[ordD]"] m f g ob h i
  show ?thesis by simp
qed

section \<open>The busy flag of the order manager\<close>

text \<open>
  Claim C6. When the busy flag \<^verbatim>\<open>isUpdating\<close> is set, a request to change an order's status
  is rejected before any call of the order service: the state is the one before, with the
  error toast added, whatever the service would have done. The loyalty verification is
  rejected in the same way. The delete handler reaches no service call either and leaves
  the order list, the statistics and the store as they are; for a pending order whose
  first prompt is confirmed it raises the same error.
\<close>

theorem busy_flag_rejects:
  assumes "isUpdating st"
  shows "updateOrderStatus svc st orderId newStatus = st\<lparr>toasts := toasts st @ [ErrBusy]\<rparr>
       \<and> verifyLoyaltyDiscount svc st orderId = st\<lparr>toasts := toasts st @ [ErrBusy]\<rparr>
       \<and> store (deleteOrder svc confirm st orderId) = store st
       \<and> m_orders (deleteOrder svc confirm st orderId) = m_orders st
       \<and> m_stats (deleteOrder svc confirm st orderId) = m_stats st
       \<and> (\<forall>ord. find (\<lambda>x. o_id x = orderId) (m_orders st) = Some ord \<and> o_status ord = Pending \<and>
                confirm ConfirmSure
              \<longrightarrow> deleteOrder svc confirm st orderId = st\<lparr>toasts := toasts st @ [ErrBusy]\<rparr>)"
  using assms
  by (auto simp: updateOrderStatus_def verifyLoyaltyDiscount_def deleteOrder_def canDeleteOrder_def
           split: option.splits)

text \<open>A busy manager keeps order b pending; the same request on an idle manager confirms it.\<close>

theorem busy_flag_rejects_witness:
  "isUpdating (mgr0\<lparr>isUpdating := True\<rparr>) \<and>
   updateOrderStatus listService (mgr0\<lparr>isUpdating := True\<rparr>) ''b'' Confirmed
     = mgr0\<lparr>isUpdating := True, toasts := [ErrBusy]\<rparr> \<and>
   store (updateOrderStatus listService (mgr0\<lparr>isUpdating := True\<rparr>) ''b'' Confirmed) = [ordB, ordX] \<and>
   deleteOrder listService alwaysConfirm (mgr0\<lparr>isUpdating := True\<rparr>) ''b''
     = mgr0\<lparr>isUpdating := True, toasts := [ErrBusy]\<rparr> \<and>
   store (updateOrderStatus listService mgr0 ''b'' Confirmed) = [ordB\<lparr>o_status := Confirmed\<rparr>, ordX]"
proof -
  let ?st = "mgr0\<lparr>isUpdating := True\<rparr>"
  have busy: "isUpdating ?st" by simp
  have fnd: "find (\<lambda>x. o_id x = ''b'') (m_orders ?st) = Some ordB \<and> o_status ordB = Pending"
    by (simp add: mgr0_def ordB_def ordX_def)
  have free: "store (updateOrderStatus listService mgr0 ''b'' Confirmed) = [ordB\<lparr>o_status := Confirmed\<rparr>, ordX]"
    by (simp add: updateOrderStatus_def afterStoreCall_def loadOrders_def loadStats_def
                  listService_def mgr0_def ordB_def ordX_def Let_def)
  have t: "toasts ?st = []" and s: "store ?st = [ordB, ordX]" by (simp_all add: mgr0_def)
  have c: "alwaysConfirm ConfirmSure" by (simp add: alwaysConfirm_def)
  from busy_flag_rejects [OF busy, of listService "''b''" Confirmed alwaysConfirm] busy fnd free t s c
  show ?thesis by (simp add: mgr0_def)
qed

section \<open>Deleting orders\<close>

text \<open>
  The delete handler refuses every order of the manager's list that is not pending: it
  calls no service, leaves the store as it is and raises an error toast.
\<close>

lemma delete_requires_pending:
  assumes "find (\<lambda>x. o_id x = orderId) (m_orders st) = Some ord"
    and "o_status ord \<noteq> Pending"
  shows "deleteOrder svc confirm st orderId = st\<lparr>toasts := toasts st @ [ErrNotDeletable]\<rparr>"
  using assms by (simp add: deleteOrder_def canDeleteOrder_def)

text \<open>
  Claim C7. The claim lets a cancelled order be deleted from the completed view, and the
  completed tab does show a delete button for the cancelled order x ("Stornierte Bestellung
  endgueltig loeschen"). The button calls the same handler, whose first guard admits
  pending orders only: with a service that would delete and a user who confirms every
  prompt, the store is unchanged, the order is still in it, and the error toast is raised.
\<close>

theorem purge_cancelled_rejected:
  "activeTab mgr0 = Completed \<and> o_status ordX = Cancelled \<and> deleteButtonShown mgr0 ordX \<and>
   ordX \<in> set (store (deleteOrder listService alwaysConfirm mgr0 (o_id ordX))) \<and>
   store (deleteOrder listService alwaysConfirm mgr0 (o_id ordX)) = store mgr0 \<and>
   toasts (deleteOrder listService alwaysConfirm mgr0 (o_id ordX)) = [ErrNotDeletable]"
  by (simp add: deleteOrder_def canDeleteOrder_def deleteButtonShown_def getFilteredOrders_def
                completedStatuses_def mgr0_def ordB_def ordX_def)

text \<open>On a pending order the same service and the same answers do delete.\<close>

lemma delete_pending_reaches_store:
  "store (deleteOrder listService alwaysConfirm mgr0 (o_id ordB)) = [ordX]"
  by (simp add: deleteOrder_def canDeleteOrder_def afterStoreCall_def loadOrders_def loadStats_def
                listService_def alwaysConfirm_def mgr0_def ordB_def ordX_def Let_def)

section \<open>Change suppression in the bar view\<close>

text \<open>
  Claim C8. When the fingerprint (id, status and update time of every order) of the
  incoming snapshot equals that of the last processed one, \<^verbatim>\<open>processOrdersWithMenuItems\<close>
  returns the state as it is, the drink and shisha lists included. The state changes only
  when the fingerprint differs and no processing is under way, and then the lists are
  recomputed and the fingerprint is stored. A snapshot with the fingerprint of the one
  just processed, delivered after the processing flag was cleared, is skipped.
\<close>

theorem hash_guard:
  "(Some (ordersHashOf orders) = lastProcessedOrders st
      \<longrightarrow> processOrdersWithMenuItems st orders menuItems = st)
   \<and> (processOrdersWithMenuItems st orders menuItems \<noteq> st
      \<longrightarrow> Some (ordersHashOf orders) \<noteq> lastProcessedOrders st \<and> \<not> isProcessing st)
   \<and> (\<not> isProcessing st \<and> Some (ordersHashOf orders) \<noteq> lastProcessedOrders st
      \<longrightarrow> drinkOrders (processOrdersWithMenuItems st orders menuItems)
            = fst (categorizeOrders menuItems orders) \<and>
          shishaOrders (processOrdersWithMenuItems st orders menuItems)
            = snd (categorizeOrders menuItems orders) \<and>
          lastProcessedOrders (processOrdersWithMenuItems st orders menuItems)
            = Some (ordersHashOf orders))
   \<and> (\<not> isProcessing st \<and> ordersHashOf orders2 = ordersHashOf orders
      \<longrightarrow> processOrdersWithMenuItems
            (resetProcessing (processOrdersWithMenuItems st orders menuItems)) orders2 menuItems2
          = resetProcessing (processOrdersWithMenuItems st orders menuItems))"
  by (auto simp: processOrdersWithMenuItems_def resetProcessing_def Let_def)

text \<open>The second snapshot has the same fingerprint and other items: it is skipped.\<close>

theorem hash_guard_witness:
  "\<not> isProcessing bar0 \<and> Some (ordersHashOf [ordM]) \<noteq> lastProcessedOrders bar0 \<and>
   ordersHashOf [ordM\<lparr>o_items := []\<rparr>] = ordersHashOf [ordM] \<and>
   processOrdersWithMenuItems bar0 [ordM] [cola, pipe, fries] \<noteq> bar0 \<and>
   length (drinkOrders (processOrdersWithMenuItems bar0 [ordM] [cola, pipe, fries])) = 1 \<and>
   processOrdersWithMenuItems
      (resetProcessing (processOrdersWithMenuItems bar0 [ordM] [cola, pipe, fries]))
      [ordM\<lparr>o_items := []\<rparr>] [cola]
     = resetProcessing (processOrdersWithMenuItems bar0 [ordM] [cola, pipe, fries]) \<and>
   Some (ordersHashOf [ordM\<lparr>o_items := []\<rparr>])
     = lastProcessedOrders (resetProcessing (processOrdersWithMenuItems bar0 [ordM] [cola, pipe, fries]))"
proof -
  have np: "\<not> isProcessing bar0" by (simp add: bar0_def)
  have ne: "Some (ordersHashOf [ordM]) \<noteq> lastProcessedOrders bar0" by (simp add: bar0_def)
  have eq: "ordersHashOf [ordM\<lparr>o_items := []\<rparr>] = ordersHashOf [ordM]"
    by (simp add: ordersHashOf_def)
  have ch: "processOrdersWithMenuItems bar0 [ordM] [cola, pipe, fries] \<noteq> bar0"
  proof
    assume "processOrdersWithMenuItems bar0 [ordM] [cola, pipe, fries] = bar0"
    then have "isProcessing (processOrdersWithMenuItems bar0 [ordM] [cola, pipe, fries]) = isProcessing bar0"
      by simp
    then show False
      by (simp add: processOrdersWithMenuItems_def bar0_def Let_def)
  qed
  have fstc: "length (fst (categorizeOrders [cola, pipe, fries] [ordM])) = 1"
    by (simp add: categorizeOrders_def buildMenuItemsMap_def categorizeItem_def Let_def
          ordM_def item_def cola_def pipe_def fries_def CATEGORIES_DRINKS_def CATEGORIES_SHISHA_def)
  from hash_guard [of "[ordM]" bar0 "[cola, pipe, fries]" "[ordM\<lparr>o_items := []\<rparr>]" "[cola]"]
       np ne eq ch fstc
  show ?thesis by (simp add: resetProcessing_def)
qed

section \<open>Order items without a bar category\<close>

lemma categorizeItem_step:
  "categorizeItem M ord it acc
   = (fst acc @ (case drinkEntry M ord it of None \<Rightarrow> [] | Some e \<Rightarrow> [e]),
      snd acc @ (case shishaEntry M ord it of None \<Rightarrow> [] | Some e \<Rightarrow> [e]))"
  by (simp add: categorizeItem_def drinkEntry_def shishaEntry_def Let_def split: option.splits)

lemma fold_categorizeItem:
  "fold (categorizeItem M ord) its acc
   = (fst acc @ List.map_filter (drinkEntry M ord) its,
      snd acc @ List.map_filter (shishaEntry M ord) its)"
proof (induction its arbitrary: acc)
  case Nil
  show ?case by simp
next
  case (Cons it its)
  show ?case
    unfolding fold_Cons comp_def Cons.IH
    by (simp add: categorizeItem_step split: option.splits)
qed

lemma set_map_filter_iff:
  "e \<in> set (List.map_filter f xs) \<longleftrightarrow> (\<exists>x\<in>set xs. f x = Some e)"
  by (induction xs) (auto split: option.splits)

lemma fold_categorize_orders:
  "fold (\<lambda>ord acc. fold (categorizeItem M ord) (o_items ord) acc) orders acc
   = (fst acc @ concat (map (\<lambda>ord. List.map_filter (drinkEntry M ord) (o_items ord)) orders),
      snd acc @ concat (map (\<lambda>ord. List.map_filter (shishaEntry M ord) (o_items ord)) orders))"
  by (induction orders arbitrary: acc) (simp_all add: fold_categorizeItem)

lemma categorizeOrders_eq:
  "categorizeOrders menuItems orders
   = (concat (map (\<lambda>ord. List.map_filter (drinkEntry (buildMenuItemsMap menuItems) ord) (o_items ord)) orders),
      concat (map (\<lambda>ord. List.map_filter (shishaEntry (buildMenuItemsMap menuItems) ord) (o_items ord)) orders))"
  by (simp add: categorizeOrders_def Let_def fold_categorize_orders)

lemma entry_in_lists:
  "e \<in> set (fst (categorizeOrders menuItems orders)) \<union> set (snd (categorizeOrders menuItems orders))
   \<longleftrightarrow> (\<exists>ord\<in>set orders. \<exists>it\<in>set (o_items ord).
          drinkEntry (buildMenuItemsMap menuItems) ord it = Some e \<or>
          shishaEntry (buildMenuItemsMap menuItems) ord it = Some e)"
  by (auto simp: categorizeOrders_eq set_map_filter_iff)

text \<open>
  Claim C10. An order item whose \<^verbatim>\<open>menuItemId\<close> is not in the menu catalog, or whose menu item
  has a category outside \<^verbatim>\<open>{drinks, beverages}\<close> and \<^verbatim>\<open>{shisha, hookah, tobacco}\<close>, has no entry
  in the drinks list and none in the shisha list. Every entry of the two lists comes from
  an item of one of the orders whose menu item was found with a category in one of the two
  sets; the displayed totals are the lengths of these lists.
\<close>

theorem unmatched_items_excluded:
  "(\<forall>ord\<in>set orders. \<forall>it\<in>set (o_items ord).
      (\<forall>m. buildMenuItemsMap menuItems (ci_menuItemId it) = Some m
             \<longrightarrow> mi_category m \<notin> CATEGORIES_DRINKS \<union> CATEGORIES_SHISHA)
      \<longrightarrow> \<not> (\<exists>e\<in>set (fst (categorizeOrders menuItems orders))
                   \<union> set (snd (categorizeOrders menuItems orders)).
                owi_order e = ord \<and> owi_orderItem e = it))
   \<and> (\<forall>e\<in>set (fst (categorizeOrders menuItems orders)) \<union> set (snd (categorizeOrders menuItems orders)).
        owi_order e \<in> set orders \<and> owi_orderItem e \<in> set (o_items (owi_order e)) \<and>
        buildMenuItemsMap menuItems (ci_menuItemId (owi_orderItem e)) = Some (owi_menuItem e) \<and>
        mi_category (owi_menuItem e) \<in> CATEGORIES_DRINKS \<union> CATEGORIES_SHISHA)"
proof -
  let ?M = "buildMenuItemsMap menuItems"
  let ?L = "set (fst (categorizeOrders menuItems orders)) \<union> set (snd (categorizeOrders menuItems orders))"
  have entry: "owi_order e = ord \<and> owi_orderItem e = it \<and>
               ?M (ci_menuItemId it) = Some (owi_menuItem e) \<and>
               mi_category (owi_menuItem e) \<in> CATEGORIES_DRINKS \<union> CATEGORIES_SHISHA"
    if "drinkEntry ?M ord it = Some e \<or> shishaEntry ?M ord it = Some e" for e ord it
    using that by (auto simp: drinkEntry_def shishaEntry_def split: option.splits if_splits)
  have incl: "\<forall>e\<in>?L. owi_order e \<in> set orders \<and> owi_orderItem e \<in> set (o_items (owi_order e)) \<and>
        ?M (ci_menuItemId (owi_orderItem e)) = Some (owi_menuItem e) \<and>
        mi_category (owi_menuItem e) \<in> CATEGORIES_DRINKS \<union> CATEGORIES_SHISHA"
  proof
    fix e assume "e \<in> ?L"
    then obtain ord it where oi: "ord \<in> set orders" "it \<in> set (o_items ord)"
      and en: "drinkEntry ?M ord it = Some e \<or> shishaEntry ?M ord it = Some e"
      unfolding entry_in_lists by blast
    from entry [OF en] oi
    show "owi_order e \<in> set orders \<and> owi_orderItem e \<in> set (o_items (owi_order e)) \<and>
        ?M (ci_menuItemId (owi_orderItem e)) = Some (owi_menuItem e) \<and>
        mi_category (owi_menuItem e) \<in> CATEGORIES_DRINKS \<union> CATEGORIES_SHISHA"
      by auto
  qed
  have excl: "\<forall>ord\<in>set orders. \<forall>it\<in>set (o_items ord).
      (\<forall>m. ?M (ci_menuItemId it) = Some m \<longrightarrow> mi_category m \<notin> CATEGORIES_DRINKS \<union> CATEGORIES_SHISHA)
      \<longrightarrow> \<not> (\<exists>e\<in>?L. owi_order e = ord \<and> owi_orderItem e = it)"
    using incl by blast
  from excl incl show ?thesis by (rule conjI)
qed

lemma menu_map_eval:
  "buildMenuItemsMap [cola, pipe, fries] ''m1'' = Some cola"
  "buildMenuItemsMap [cola, pipe, fries] ''m2'' = Some pipe"
  "buildMenuItemsMap [cola, pipe, fries] ''m3'' = Some fries"
  "buildMenuItemsMap [cola, pipe, fries] ''m9'' = None"
  by (simp_all add: buildMenuItemsMap_def cola_def pipe_def fries_def)

text \<open>An order with a cola, fries, an unknown item and a shisha: one drink, one shisha.\<close>

theorem unmatched_items_excluded_witness:
  "ordM \<in> set [ordM] \<and> item ''m3'' \<in> set (o_items ordM) \<and> item ''m9'' \<in> set (o_items ordM) \<and>
   buildMenuItemsMap [cola, pipe, fries] (ci_menuItemId (item ''m9'')) = None \<and>
   buildMenuItemsMap [cola, pipe, fries] (ci_menuItemId (item ''m3'')) = Some fries \<and>
   mi_category fries \<notin> CATEGORIES_DRINKS \<union> CATEGORIES_SHISHA \<and>
   \<not> (\<exists>e\<in>set (fst (categorizeOrders [cola, pipe, fries] [ordM]))
            \<union> set (snd (categorizeOrders [cola, pipe, fries] [ordM])).
         owi_order e = ordM \<and> owi_orderItem e = item ''m3'') \<and>
   \<not> (\<exists>e\<in>set (fst (categorizeOrders [cola, pipe, fries] [ordM]))
            \<union> set (snd (categorizeOrders [cola, pipe, fries] [ordM])).
         owi_order e = ordM \<and> owi_orderItem e = item ''m9'') \<and>
   map owi_menuItem (fst (categorizeOrders [cola, pipe, fries] [ordM])) = [cola] \<and>
   map owi_menuItem (snd (categorizeOrders [cola, pipe, fries] [ordM])) = [pipe]"
proof -
  have mem: "ordM \<in> set [ordM]" by simp
  have i3: "item ''m3'' \<in> set (o_items ordM)" and i9: "item ''m9'' \<in> set (o_items ordM)"
    by (simp_all add: ordM_def)
  have l9: "buildMenuItemsMap [cola, pipe, fries] (ci_menuItemId (item ''m9'')) = None"
    by (simp add: item_def menu_map_eval)
  have l3: "buildMenuItemsMap [cola, pipe, fries] (ci_menuItemId (item ''m3'')) = Some fries"
    by (simp add: item_def menu_map_eval)
  have cat: "mi_category fries \<notin> CATEGORIES_DRINKS \<union> CATEGORIES_SHISHA"
    by (simp add: fries_def CATEGORIES_DRINKS_def CATEGORIES_SHISHA_def)
  have lists: "map owi_menuItem (fst (categorizeOrders [cola, pipe, fries] [ordM])) = [cola]"
              "map owi_menuItem (snd (categorizeOrders [cola, pipe, fries] [ordM])) = [pipe]"
    by (simp_all add: categorizeOrders_eq drinkEntry_def shishaEntry_def ordM_def item_def
          menu_map_eval CATEGORIES_DRINKS_def CATEGORIES_SHISHA_def)
       (simp_all add: cola_def pipe_def fries_def)
  note excl = unmatched_items_excluded [of "[ordM]" "[cola, pipe, fries]", THEN conjunct1, rule_format]
  have e3: "\<not> (\<exists>e\<in>set (fst (categorizeOrders [cola, pipe, fries] [ordM]))
            \<union> set (snd (categorizeOrders [cola, pipe, fries] [ordM])).
         owi_order e = ordM \<and> owi_orderItem e = item ''m3'')"
    using excl [OF mem i3] l3 cat by simp
  have e9: "\<not> (\<exists>e\<in>set (fst (categorizeOrders [cola, pipe, fries] [ordM]))
            \<union> set (snd (categorizeOrders [cola, pipe, fries] [ordM])).
         owi_order e = ordM \<and> owi_orderItem e = item ''m9'')"
    using excl [OF mem i9] l9 by simp
  from mem i3 i9 l9 l3 cat e3 e9 lists show ?thesis by blast
qed

end
